theory Spec2Isabelle
  imports Complex_Main "HOL-Library.Word" "HOL-Library.Multiset"
begin

section \<open>The MEX array interface used by \<^verbatim>\<open>fast_assign_true.c\<close>\<close>

text \<open>
  The file \<^verbatim>\<open>classes/SparseLabels/lib/fast_assign_true.c\<close> is one MEX entry point,
  \<^verbatim>\<open>mexFunction\<close>. It talks to MATLAB through \<^verbatim>\<open>mex.h\<close>; the part of that interface
  the function uses is modelled here at the level of values.

  A \<^verbatim>\<open>double\<close> is modelled by the number it denotes: every finite double is a rational,
  and the only operation the code applies to a double is the conversion to \<^verbatim>\<open>size_t\<close>,
  which C defines on that number. The model admits every rational, so a statement about
  all \<open>Finite q\<close> covers all finite doubles.
\<close>

datatype double = Finite rat | PlusInfinity | MinusInfinity | NaN

datatype mxClassID =
    mxUNKNOWN_CLASS | mxCELL_CLASS | mxSTRUCT_CLASS | mxLOGICAL_CLASS | mxCHAR_CLASS
  | mxVOID_CLASS | mxDOUBLE_CLASS | mxSINGLE_CLASS | mxINT8_CLASS | mxUINT8_CLASS
  | mxINT16_CLASS | mxUINT16_CLASS | mxINT32_CLASS | mxUINT32_CLASS | mxINT64_CLASS
  | mxUINT64_CLASS | mxFUNCTION_CLASS

text \<open>The array classes whose contents the code never reads.\<close>

datatype other_kind =
    Struct | Char | Single | Int8 | UInt8 | Int16 | UInt16 | Int32 | UInt32 | Int64
  | FunctionHandle

fun other_class :: "other_kind \<Rightarrow> mxClassID" where
  "other_class Struct = mxSTRUCT_CLASS"
| "other_class Char = mxCHAR_CLASS"
| "other_class Single = mxSINGLE_CLASS"
| "other_class Int8 = mxINT8_CLASS"
| "other_class UInt8 = mxUINT8_CLASS"
| "other_class Int16 = mxINT16_CLASS"
| "other_class UInt16 = mxUINT16_CLASS"
| "other_class Int32 = mxINT32_CLASS"
| "other_class UInt32 = mxUINT32_CLASS"
| "other_class Int64 = mxINT64_CLASS"
| "other_class FunctionHandle = mxFUNCTION_CLASS"

text \<open>
  \<^verbatim>\<open>size_t\<close> and \<^verbatim>\<open>uint64_t\<close> are 64 bits wide, as on the platforms MATLAB runs on; the
  loop counters are natural numbers, bounded by the lengths of the lists they index.
  Running out of memory is not modelled: \<^verbatim>\<open>mxCreateCellMatrix\<close> and
  \<^verbatim>\<open>mxCreateLogicalMatrix\<close> always return the array asked for.

  An \<^verbatim>\<open>mxArray\<close> that is passed in, or handed back to the caller, is a value: its class
  and its elements in linear order. A cell of a cell array is \<^verbatim>\<open>NULL\<close> (\<open>None\<close>) until it
  is set. An array of any other class is given by its class and its number of elements.
  The arrays the call itself creates live in a store, introduced below.
\<close>

datatype mxArray =
    CellArray "mxArray option list"
  | LogicalArray "bool list"
  | DoubleArray "double list"
  | UInt64Array "64 word list"
  | OtherArray other_kind nat

fun mxGetClassID :: "mxArray \<Rightarrow> mxClassID" where
  "mxGetClassID (CellArray cs) = mxCELL_CLASS"
| "mxGetClassID (LogicalArray bs) = mxLOGICAL_CLASS"
| "mxGetClassID (DoubleArray ds) = mxDOUBLE_CLASS"
| "mxGetClassID (UInt64Array ws) = mxUINT64_CLASS"
| "mxGetClassID (OtherArray k n) = other_class k"

fun mxGetNumberOfElements :: "mxArray \<Rightarrow> nat" where
  "mxGetNumberOfElements (CellArray cs) = length cs"
| "mxGetNumberOfElements (LogicalArray bs) = length bs"
| "mxGetNumberOfElements (DoubleArray ds) = length ds"
| "mxGetNumberOfElements (UInt64Array ws) = length ws"
| "mxGetNumberOfElements (OtherArray k n) = n"

text \<open>
  \<^verbatim>\<open>mxGetScalar\<close> reads the first element as a double. Only the double case is given a
  value: line 27 of the source has rejected every other class before line 40 reads the
  scalar.
\<close>

fun mxGetScalar :: "mxArray \<Rightarrow> double option" where
  "mxGetScalar (DoubleArray (d # ds)) = Some d"
| "mxGetScalar a = None"

fun mxGetCell :: "mxArray \<Rightarrow> nat \<Rightarrow> mxArray option" where
  "mxGetCell (CellArray cs) i = (if i < length cs then cs ! i else None)"
| "mxGetCell a i = None"

text \<open>\<^verbatim>\<open>mxGetData\<close>, read through the cast to \<^verbatim>\<open>uint64_t*\<close> of line 60.\<close>

fun mxGetData :: "mxArray \<Rightarrow> 64 word list" where
  "mxGetData (UInt64Array ws) = ws"
| "mxGetData a = []"

subsection \<open>The arrays the call creates\<close>

text \<open>
  The call creates one cell matrix (line 42) and one logical matrix for each index set
  (line 62), stores the logical matrices in the cells (line 70) and, on the type error,
  destroys arrays (lines 52 and 55). These arrays are named by pointers and live in a
  store, so that it is visible which array a cell points to and whether an array still
  exists. A slot of the store is \<open>None\<close> once its array has been destroyed. A cell of a
  created cell matrix is \<^verbatim>\<open>NULL\<close> or the address of a logical matrix: the only arrays this
  code puts into cells.
\<close>

datatype pointer = CellPtr nat | LogicalPtr nat

record store =
  cell_arrays :: "nat option list option list"
  logicals :: "bool list option list"

definition empty_store :: store where
  "empty_store = \<lparr>cell_arrays = [], logicals = []\<rparr>"

definition cell_array_at :: "store \<Rightarrow> nat \<Rightarrow> nat option list option" where
  "cell_array_at s p = (if p < length (cell_arrays s) then cell_arrays s ! p else None)"

definition logical_at :: "store \<Rightarrow> nat \<Rightarrow> bool list option" where
  "logical_at s p = (if p < length (logicals s) then logicals s ! p else None)"

definition mxCreateCellMatrix :: "nat \<Rightarrow> nat \<Rightarrow> store \<Rightarrow> nat \<times> store" where
  "mxCreateCellMatrix m n s =
     (length (cell_arrays s), s\<lparr>cell_arrays := cell_arrays s @ [Some (replicate (m * n) None)]\<rparr>)"

definition mxCreateLogicalMatrix :: "nat \<Rightarrow> nat \<Rightarrow> store \<Rightarrow> nat \<times> store" where
  "mxCreateLogicalMatrix m n s =
     (length (logicals s), s\<lparr>logicals := logicals s @ [Some (replicate (m * n) False)]\<rparr>)"

definition mxGetLogicals :: "store \<Rightarrow> nat \<Rightarrow> bool list" where
  "mxGetLogicals s p = (case logical_at s p of Some bs \<Rightarrow> bs | None \<Rightarrow> [])"

text \<open>
  \<^verbatim>\<open>logical_inds_ptr\<close> points at the data of \<^verbatim>\<open>logical_inds\<close>: what the scatter loop has
  written through it is the content of that array.
\<close>

definition write_logicals :: "nat \<Rightarrow> bool list \<Rightarrow> store \<Rightarrow> store" where
  "write_logicals p bs s = s\<lparr>logicals := (logicals s)[p := Some bs]\<rparr>"

definition mxSetCell :: "nat \<Rightarrow> nat \<Rightarrow> nat \<Rightarrow> store \<Rightarrow> store" where
  "mxSetCell out i v s =
     (case cell_array_at s out of
        Some cs \<Rightarrow> s\<lparr>cell_arrays := (cell_arrays s)[out := Some (cs[i := Some v])]\<rparr>
      | None \<Rightarrow> s)"

text \<open>\<^verbatim>\<open>mxGetCell\<close> on a cell matrix of the store (line 52) returns the pointer in the cell.\<close>

definition mxGetCell_created :: "store \<Rightarrow> nat \<Rightarrow> nat \<Rightarrow> pointer option" where
  "mxGetCell_created s out j =
     (case cell_array_at s out of
        Some cs \<Rightarrow> (if j < length cs then map_option LogicalPtr (cs ! j) else None)
      | None \<Rightarrow> None)"

subsection \<open>Failures\<close>

text \<open>
  A call ends in one of two ways: it returns, with \<^verbatim>\<open>plhs[0]\<close> assigned, or it does not.
  \<open>MexErr\<close> is the error \<^verbatim>\<open>mexErrMsgIdAndTxt\<close> raises to the caller, with its identifier
  and its message; it does not return to the MEX function. The other failures are the
  places where the code has no defined behaviour: the conversion of a double whose
  integral part is not a \<^verbatim>\<open>size_t\<close> (line 40), the class query on a \<^verbatim>\<open>NULL\<close> cell
  (line 48), the write through an index outside the logical buffer (line 67), which
  records the position of the index set and the value, and the use of an array that has
  been destroyed, which records its pointer.
\<close>

datatype failure =
    MexErr string string
  | ConversionOutOfRange
  | NullArray nat
  | OutOfBounds nat "64 word"
  | UseAfterDestroy pointer

definition mexErrMsgIdAndTxt :: "string \<Rightarrow> string \<Rightarrow> failure + 'a" where
  "mexErrMsgIdAndTxt ident msg = Inl (MexErr ident msg)"

text \<open>
  \<^verbatim>\<open>mxDestroyArray\<close> frees the array it is given and, for a cell array, the arrays in its
  cells. \<^verbatim>\<open>NULL\<close> is accepted and ignored. An array that no longer exists cannot be
  freed again.
\<close>

fun free_cells :: "nat option list \<Rightarrow> store \<Rightarrow> failure + store" where
  "free_cells [] s = Inr s"
| "free_cells (None # cs) s = free_cells cs s"
| "free_cells (Some a # cs) s =
     (case logical_at s a of
        None \<Rightarrow> Inl (UseAfterDestroy (LogicalPtr a))
      | Some bs \<Rightarrow> free_cells cs (s\<lparr>logicals := (logicals s)[a := None]\<rparr>))"

fun mxDestroyArray :: "pointer option \<Rightarrow> store \<Rightarrow> failure + store" where
  "mxDestroyArray None s = Inr s"
| "mxDestroyArray (Some (LogicalPtr a)) s =
     (case logical_at s a of
        None \<Rightarrow> Inl (UseAfterDestroy (LogicalPtr a))
      | Some bs \<Rightarrow> Inr (s\<lparr>logicals := (logicals s)[a := None]\<rparr>))"
| "mxDestroyArray (Some (CellPtr p)) s =
     (case cell_array_at s p of
        None \<Rightarrow> Inl (UseAfterDestroy (CellPtr p))
      | Some cs \<Rightarrow> free_cells cs (s\<lparr>cell_arrays := (cell_arrays s)[p := None]\<rparr>))"

text \<open>
  What the caller finds in \<^verbatim>\<open>plhs[0]\<close> after line 73: the cell array \<open>out\<close> points to,
  each cell holding the logical array it points to.
\<close>

fun read_cells :: "store \<Rightarrow> nat option list \<Rightarrow> failure + mxArray option list" where
  "read_cells s [] = Inr []"
| "read_cells s (None # cs) =
     (case read_cells s cs of Inl e \<Rightarrow> Inl e | Inr vs \<Rightarrow> Inr (None # vs))"
| "read_cells s (Some a # cs) =
     (case logical_at s a of
        None \<Rightarrow> Inl (UseAfterDestroy (LogicalPtr a))
      | Some bs \<Rightarrow>
          (case read_cells s cs of
             Inl e \<Rightarrow> Inl e
           | Inr vs \<Rightarrow> Inr (Some (LogicalArray bs) # vs)))"

definition returned_array :: "store \<Rightarrow> nat \<Rightarrow> failure + mxArray" where
  "returned_array s out =
     (case cell_array_at s out of
        None \<Rightarrow> Inl (UseAfterDestroy (CellPtr out))
      | Some cs \<Rightarrow>
          (case read_cells s cs of Inl e \<Rightarrow> Inl e | Inr vs \<Rightarrow> Inr (CellArray vs)))"

subsection \<open>Conversion of the length to \<^verbatim>\<open>size_t\<close>\<close>

text \<open>
  Line 40, \<^verbatim>\<open>size_t size = mxGetScalar(in_size)\<close>, converts a double to a 64-bit unsigned
  integer. C discards the fractional part (truncation toward zero) and defines the result
  only when the integral part is representable.
\<close>

definition truncate :: "rat \<Rightarrow> int" where
  "truncate q = (if 0 \<le> q then \<lfloor>q\<rfloor> else \<lceil>q\<rceil>)"

fun double_to_size_t :: "double \<Rightarrow> 64 word option" where
  "double_to_size_t (Finite q) =
     (let t = truncate q in if 0 \<le> t \<and> t < 2 ^ 64 then Some (word_of_int t) else None)"
| "double_to_size_t d = None"

section \<open>\<^verbatim>\<open>mexFunction\<close>\<close>

text \<open>
  Lines 65 to 68: the scatter loop over \<open>j\<close>. The buffer has the length of the logical
  matrix; an index at or beyond it is outside the allocation.
\<close>

function scatter_loop ::
  "nat \<Rightarrow> 64 word list \<Rightarrow> nat \<Rightarrow> nat \<Rightarrow> bool list \<Rightarrow> failure + bool list" where
  "scatter_loop i num_inds_ptr n_num_indices j logical_inds_ptr =
     (if j < n_num_indices then
        (let v = num_inds_ptr ! j in
         if unat v < length logical_inds_ptr
         then scatter_loop i num_inds_ptr n_num_indices (Suc j) (logical_inds_ptr[unat v := True])
         else Inl (OutOfBounds i v))
      else Inr logical_inds_ptr)"
  by pat_completeness auto
termination
  by (relation "measure (\<lambda>(i, p, n, j, l). n - j)") auto

text \<open>
  Lines 50 to 53: each mask built so far is fetched from its cell and destroyed. The
  cells of \<open>out\<close> keep their pointers.
\<close>

function destroy_loop :: "nat \<Rightarrow> nat \<Rightarrow> nat \<Rightarrow> store \<Rightarrow> failure + store" where
  "destroy_loop out j i s =
     (if j < i then
        (case mxDestroyArray (mxGetCell_created s out j) s of
           Inl e \<Rightarrow> Inl e
         | Inr s' \<Rightarrow> destroy_loop out (Suc j) i s')
      else Inr s)"
  by pat_completeness auto
termination
  by (relation "measure (\<lambda>(out, j, i, s). i - j)") auto

text \<open>
  Lines 44 to 71: the loop over the index sets. \<open>sz\<close> is the source's \<^verbatim>\<open>size\<close>, \<open>out\<close>
  the pointer to the output cell matrix.
\<close>

function index_loop ::
  "mxArray \<Rightarrow> 64 word \<Rightarrow> nat \<Rightarrow> nat \<Rightarrow> nat \<Rightarrow> store \<Rightarrow> (failure + nat) \<times> store" where
  "index_loop in_indices sz n_indices i out s =
     (if i < n_indices then
        (case mxGetCell in_indices i of
           None \<Rightarrow> (Inl (NullArray i), s)
         | Some num_indices \<Rightarrow>
             if mxGetClassID num_indices \<noteq> mxUINT64_CLASS
             then
               (case destroy_loop out 0 i s of
                  Inl e \<Rightarrow> (Inl e, s)
                | Inr s' \<Rightarrow>
                    (case mxDestroyArray (Some (CellPtr out)) s' of
                       Inl e \<Rightarrow> (Inl e, s')
                     | Inr s'' \<Rightarrow>
                         (mexErrMsgIdAndTxt ''fast_assign_true:main''
                            ''Indices must be uint64.'', s'')))
             else
               (let n_num_indices = mxGetNumberOfElements num_indices;
                    num_inds_ptr = mxGetData num_indices;
                    created = mxCreateLogicalMatrix (unat sz) 1 s;
                    logical_inds = fst created;
                    s' = snd created
                in case scatter_loop i num_inds_ptr n_num_indices 0
                          (mxGetLogicals s' logical_inds) of
                     Inl e \<Rightarrow> (Inl e, s')
                   | Inr logical_inds_ptr \<Rightarrow>
                       index_loop in_indices sz n_indices (Suc i) out
                         (mxSetCell out i logical_inds
                            (write_logicals logical_inds logical_inds_ptr s'))))
      else (Inr out, s))"
  by pat_completeness auto
termination
  by (relation "measure (\<lambda>(c, sz, n, i, out, s). n - i)") auto

text \<open>
  The entry point. \<open>nlhs\<close> is the number of outputs the caller asks for and \<open>prhs\<close> the
  inputs; MATLAB passes \<open>nrhs\<close> as the number of entries of \<open>prhs\<close>. The result is the
  array the call leaves in \<^verbatim>\<open>plhs[0]\<close>, or the failure, together with the store.
\<close>

definition mexFunction :: "int \<Rightarrow> mxArray list \<Rightarrow> (failure + mxArray) \<times> store" where
  "mexFunction nlhs prhs =
     (let nrhs = int (length prhs) in
      if nrhs \<noteq> 2
      then (mexErrMsgIdAndTxt ''fast_assign_true:main'' ''Wrong number of inputs.'', empty_store)
      else if nlhs \<noteq> 1
      then (mexErrMsgIdAndTxt ''fast_assign_true:main'' ''Wrong number of outputs.'', empty_store)
      else
        (let in_indices = prhs ! 0;
             in_size = prhs ! 1;
             indices_id = mxGetClassID in_indices;
             size_id = mxGetClassID in_size
         in if indices_id \<noteq> mxCELL_CLASS
            then (mexErrMsgIdAndTxt ''fast_assign_true:main'' ''Indices must be cell array.'',
                  empty_store)
            else if size_id \<noteq> mxDOUBLE_CLASS
            then (mexErrMsgIdAndTxt ''fast_assign_true:main'' ''Size must be double.'',
                  empty_store)
            else
              (let n_indices = mxGetNumberOfElements in_indices;
                   n_size = mxGetNumberOfElements in_size
               in if n_size \<noteq> 1
                  then (mexErrMsgIdAndTxt ''fast_assign_true:main'' ''Size must be scalar.'',
                        empty_store)
                  else
                    (case Option.bind (mxGetScalar in_size) double_to_size_t of
                       None \<Rightarrow> (Inl ConversionOutOfRange, empty_store)
                     | Some sz \<Rightarrow>
                         (let created = mxCreateCellMatrix n_indices 1 empty_store;
                              out = fst created
                          in case index_loop in_indices sz n_indices 0 out (snd created) of
                               (Inl e, s) \<Rightarrow> (Inl e, s)
                             | (Inr out', s) \<Rightarrow> (returned_array s out', s))))))"

section \<open>Vocabulary for the properties\<close>

text \<open>
  How a caller's data reaches the entry point: a batch of index sets is a cell array of
  \<^verbatim>\<open>uint64\<close> vectors, a length \<open>L\<close> is the scalar double of that value, and a batch of
  masks is a cell array of logical vectors.
\<close>

definition index_batch :: "64 word list list \<Rightarrow> mxArray" where
  "index_batch batch = CellArray (map (\<lambda>ws. Some (UInt64Array ws)) batch)"

definition mask_batch :: "bool list list \<Rightarrow> mxArray" where
  "mask_batch masks = CellArray (map (\<lambda>m. Some (LogicalArray m)) masks)"

definition length_scalar :: "nat \<Rightarrow> mxArray" where
  "length_scalar L = DoubleArray [Finite (of_nat L)]"

text \<open>An index set with every element written twice.\<close>

definition duplicate :: "'a list \<Rightarrow> 'a list" where
  "duplicate s = concat (map (\<lambda>x. [x, x]) s)"

text \<open>
  The mask of length \<open>L\<close> that is true exactly at the positions listed in \<open>ws\<close>; the
  lemmas below show that this is what the scatter loop leaves in the buffer.
\<close>

definition indicator_mask :: "nat \<Rightarrow> 64 word list \<Rightarrow> bool list" where
  "indicator_mask L ws = map (\<lambda>p. p \<in> unat ` set ws) [0..<L]"

abbreviation uint64_cell :: "64 word list \<Rightarrow> mxArray option" where
  "uint64_cell ws \<equiv> Some (UInt64Array ws)"

abbreviation mask_cell :: "nat \<Rightarrow> 64 word list \<Rightarrow> mxArray option" where
  "mask_cell L ws \<equiv> Some (LogicalArray (indicator_mask L ws))"

text \<open>
  The store after the loop has converted the index sets \<open>pre\<close> of a batch of \<open>n\<close>: the
  output cell matrix at address 0 points to one logical matrix for each of them, in order.
\<close>

definition store_after :: "nat \<Rightarrow> nat \<Rightarrow> 64 word list list \<Rightarrow> store" where
  "store_after L n pre =
     \<lparr>cell_arrays = [Some (map Some [0..<length pre] @ replicate (n - length pre) None)],
      logicals = map (\<lambda>ws. Some (indicator_mask L ws)) pre\<rparr>"

section \<open>The loops\<close>

declare scatter_loop.simps [simp del] destroy_loop.simps [simp del] index_loop.simps [simp del]

lemma scatter_loop_in_range:
  "\<forall>v\<in>set (drop j ws). unat v < length m \<Longrightarrow>
   scatter_loop i ws (length ws) j m =
     Inr (map (\<lambda>p. m ! p \<or> p \<in> unat ` set (drop j ws)) [0..<length m])"
proof (induction "length ws - j" arbitrary: j m)
  case 0
  then have "drop j ws = []" by simp
  moreover have "\<not> j < length ws" using 0 by simp
  ultimately show ?case
    by (simp add: scatter_loop.simps [of i ws "length ws" j m] map_nth)
next
  case (Suc d)
  then have j: "j < length ws" by simp
  then have dr: "drop j ws = ws ! j # drop (Suc j) ws"
    by (simp add: Cons_nth_drop_Suc)
  let ?v = "ws ! j"
  have v: "unat ?v < length m" using Suc.prems dr by simp
  have rest: "\<forall>v\<in>set (drop (Suc j) ws). unat v < length (m[unat ?v := True])"
    using Suc.prems dr by simp
  have d: "d = length ws - Suc j" using Suc.hyps(2) by simp
  have "scatter_loop i ws (length ws) j m =
        scatter_loop i ws (length ws) (Suc j) (m[unat ?v := True])"
    using j v by (simp add: scatter_loop.simps [of i ws "length ws" j m])
  also have "\<dots> = Inr (map (\<lambda>p. (m[unat ?v := True]) ! p \<or> p \<in> unat ` set (drop (Suc j) ws))
                        [0..<length (m[unat ?v := True])])"
    by (rule Suc.hyps(1) [OF d rest])
  also have "\<dots> = Inr (map (\<lambda>p. m ! p \<or> p \<in> unat ` set (drop j ws)) [0..<length m])"
    using v by (auto simp: dr nth_list_update)
  finally show ?case .
qed

lemma scatter_loop_mask:
  assumes "\<forall>v\<in>set ws. unat v < L"
  shows "scatter_loop i ws (length ws) 0 (replicate L False) = Inr (indicator_mask L ws)"
  using scatter_loop_in_range [of 0 ws "replicate L False" i] assms
  by (simp add: indicator_mask_def)

lemma scatter_loop_out_of_range:
  "\<exists>v\<in>set (drop j ws). length m \<le> unat v \<Longrightarrow>
   \<exists>v\<in>set (drop j ws). length m \<le> unat v \<and>
      scatter_loop i ws (length ws) j m = Inl (OutOfBounds i v)"
proof (induction "length ws - j" arbitrary: j m)
  case 0
  then show ?case by simp
next
  case (Suc d)
  then have j: "j < length ws" by simp
  then have dr: "drop j ws = ws ! j # drop (Suc j) ws"
    by (simp add: Cons_nth_drop_Suc)
  let ?v = "ws ! j"
  show ?case
  proof (cases "unat ?v < length m")
    case False
    then have "scatter_loop i ws (length ws) j m = Inl (OutOfBounds i ?v)"
      using j by (simp add: scatter_loop.simps [of i ws "length ws" j m])
    with False show ?thesis by (auto simp: dr)
  next
    case True
    have d: "d = length ws - Suc j" using Suc.hyps(2) by simp
    have ex: "\<exists>v\<in>set (drop (Suc j) ws). length (m[unat ?v := True]) \<le> unat v"
      using Suc.prems True by (auto simp: dr)
    have step: "scatter_loop i ws (length ws) j m =
        scatter_loop i ws (length ws) (Suc j) (m[unat ?v := True])"
      using j True by (simp add: scatter_loop.simps [of i ws "length ws" j m])
    from Suc.hyps(1) [OF d ex] show ?thesis
      by (auto simp: dr step)
  qed
qed


lemma scatter_loop_no_error:
  "scatter_loop i ws n j m \<noteq> Inl (MexErr ident msg)"
proof (induction i ws n j m rule: scatter_loop.induct)
  case (1 i num_inds_ptr n_num_indices j logical_inds_ptr)
  then show ?case
    by (subst scatter_loop.simps) (simp add: Let_def)
qed


lemma index_loop_done:
  "index_loop in_indices sz n n out s = (Inr out, s)"
  by (simp add: index_loop.simps [of in_indices sz n n out s])

lemma index_loop_step:
  assumes "\<forall>v\<in>set ws. unat v < unat sz" and "n = length pre + Suc (length rest)"
    and "mxGetCell in_indices (length pre) = uint64_cell ws"
  shows "index_loop in_indices sz n (length pre) 0 (store_after (unat sz) n pre) =
         index_loop in_indices sz n (Suc (length pre)) 0 (store_after (unat sz) n (pre @ [ws]))"
proof -
  let ?k = "length pre"
  let ?L = "unat sz"
  let ?s = "store_after ?L n pre"
  let ?s' = "?s\<lparr>logicals := logicals ?s @ [Some (replicate ?L False)]\<rparr>"
  have k: "?k < n" using assms(2) by simp
  have cr: "mxCreateLogicalMatrix ?L 1 ?s = (?k, ?s')"
    by (simp add: mxCreateLogicalMatrix_def store_after_def)
  have buf: "mxGetLogicals ?s' ?k = replicate ?L False"
    by (simp add: mxGetLogicals_def logical_at_def store_after_def nth_append)
  have sc: "scatter_loop ?k ws (length ws) 0 (replicate ?L False) = Inr (indicator_mask ?L ws)"
    by (rule scatter_loop_mask [OF assms(1)])
  have cells: "(map Some [0..<?k] @ replicate (n - ?k) None)[?k := Some ?k] =
               map Some [0..<Suc ?k] @ replicate (n - Suc ?k) None"
  proof -
    from k obtain d where d: "n - ?k = Suc d" by (cases "n - ?k") simp_all
    then have "n - Suc ?k = d" by simp
    with d show ?thesis by (simp add: list_update_append)
  qed
  have upd: "mxSetCell 0 ?k ?k (write_logicals ?k (indicator_mask ?L ws) ?s') =
             store_after ?L n (pre @ [ws])"
    using cells
    by (simp add: mxSetCell_def write_logicals_def cell_array_at_def store_after_def
        list_update_append)
  show ?thesis
    using k assms(3) cr buf sc upd
    by (simp add: index_loop.simps [of in_indices sz n ?k 0 ?s] Let_def)
qed

lemma index_loop_prefix:
  assumes "\<forall>ws\<in>set pre. \<forall>v\<in>set ws. unat v < unat sz"
    and "n = length pre + length rest"
  shows "index_loop (CellArray (map uint64_cell pre @ rest)) sz n 0 0
           (store_after (unat sz) n []) =
         index_loop (CellArray (map uint64_cell pre @ rest)) sz n (length pre) 0
           (store_after (unat sz) n pre)"
  using assms
proof (induction pre arbitrary: rest rule: rev_induct)
  case Nil
  then show ?case by simp
next
  case (snoc ws pre)
  let ?cells = "map uint64_cell pre @ uint64_cell ws # rest"
  have valid: "\<forall>ws\<in>set pre. \<forall>v\<in>set ws. unat v < unat sz"
    and ws: "\<forall>v\<in>set ws. unat v < unat sz"
    using snoc.prems(1) by simp_all
  have n: "n = length pre + length (uint64_cell ws # rest)"
    and n': "n = length pre + Suc (length rest)"
    using snoc.prems(2) by simp_all
  have cell: "mxGetCell (CellArray ?cells) (length pre) = uint64_cell ws"
    by (simp add: nth_append)
  from snoc.IH [OF valid n] index_loop_step [OF ws n' cell]
  show ?case by simp
qed

lemma read_cells_live:
  "\<forall>a\<in>set as. logical_at s a = Some (g a) \<Longrightarrow>
   read_cells s (map Some as) = Inr (map (\<lambda>a. Some (LogicalArray (g a))) as)"
  by (induction as) simp_all

lemma returned_array_store_after:
  "returned_array (store_after L (length batch) batch) 0 =
   Inr (CellArray (map (mask_cell L) batch))"
proof -
  let ?s = "store_after L (length batch) batch"
  have "\<forall>a\<in>set [0..<length batch]. logical_at ?s a = Some (indicator_mask L (batch ! a))"
    by (simp add: logical_at_def store_after_def)
  from read_cells_live [OF this]
  have "read_cells ?s (map Some [0..<length batch]) =
        Inr (map (\<lambda>a. mask_cell L (batch ! a)) [0..<length batch])" .
  also have "map (\<lambda>a. mask_cell L (batch ! a)) [0..<length batch] = map (mask_cell L) batch"
    by (rule nth_equalityI) simp_all
  finally show ?thesis
    by (simp add: returned_array_def cell_array_at_def store_after_def)
qed


lemma free_cells_null: "free_cells (replicate n None) s = Inr s"
  by (induction n) simp_all

lemma destroy_loop_frees:
  assumes "k = j + length ms"
  shows "destroy_loop 0 j k
           \<lparr>cell_arrays = [Some (map Some [0..<k] @ r)],
            logicals = replicate j None @ map Some ms\<rparr> =
         Inr \<lparr>cell_arrays = [Some (map Some [0..<k] @ r)], logicals = replicate k None\<rparr>"
  using assms
proof (induction ms arbitrary: j)
  case Nil
  then show ?case
    by (subst destroy_loop.simps) simp
next
  case (Cons m ms)
  let ?s = "\<lparr>cell_arrays = [Some (map Some [0..<k] @ r)],
             logicals = replicate j None @ map Some (m # ms)\<rparr>"
  have j: "j < k" using Cons.prems by simp
  have cell: "mxGetCell_created ?s 0 j = Some (LogicalPtr j)"
    using j by (simp add: mxGetCell_created_def cell_array_at_def nth_append)
  have live: "logical_at ?s j = Some m"
    by (simp add: logical_at_def nth_append)
  have freed: "(replicate j None @ map Some (m # ms))[j := None] =
               replicate (Suc j) None @ map Some ms"
    by (simp add: list_update_append replicate_append_same)
  have k: "k = Suc j + length ms" using Cons.prems by simp
  have "destroy_loop 0 j k ?s =
        destroy_loop 0 (Suc j) k
          \<lparr>cell_arrays = [Some (map Some [0..<k] @ r)],
           logicals = replicate (Suc j) None @ map Some ms\<rparr>"
    using j cell live freed
    by (subst destroy_loop.simps) simp
  with Cons.IH [OF k] show ?case by simp
qed

lemma destroy_loop_store_after:
  "destroy_loop 0 0 (length pre) (store_after L n pre) =
   Inr \<lparr>cell_arrays = [Some (map Some [0..<length pre] @ replicate (n - length pre) None)],
        logicals = replicate (length pre) None\<rparr>"
  using destroy_loop_frees [of "length pre" 0 "map (indicator_mask L) pre"
      "replicate (n - length pre) None"]
  by (simp add: store_after_def comp_def)

lemma destroy_out_again:
  assumes "0 < k"
  shows "mxDestroyArray (Some (CellPtr 0))
           \<lparr>cell_arrays = [Some (map Some [0..<k] @ r)], logicals = replicate k None\<rparr> =
         Inl (UseAfterDestroy (LogicalPtr 0))"
  using assms
  by (simp add: cell_array_at_def logical_at_def upt_conv_Cons)

text \<open>
  The type error at an index set after the first: the masks are destroyed through their
  cells, and destroying \<open>out\<close> then reaches the first of them again.
\<close>

lemma index_loop_type_error_later:
  assumes "length pre < n" and "pre \<noteq> []"
    and "mxGetCell in_indices (length pre) = Some a"
    and "mxGetClassID a \<noteq> mxUINT64_CLASS"
  shows "fst (index_loop in_indices sz n (length pre) 0 (store_after L n pre)) =
         Inl (UseAfterDestroy (LogicalPtr 0))"
proof -
  have k: "0 < length pre" using assms(2) by simp
  show ?thesis
    using assms(1,3,4) destroy_out_again [OF k]
    by (simp add: index_loop.simps [of in_indices sz n "length pre" 0 "store_after L n pre"]
        destroy_loop_store_after)
qed

text \<open>The type error at the first index set: nothing but \<open>out\<close> exists, and it is freed.\<close>

lemma index_loop_type_error_first:
  assumes "0 < n" and "mxGetCell in_indices 0 = Some a"
    and "mxGetClassID a \<noteq> mxUINT64_CLASS"
  shows "index_loop in_indices sz n 0 0 (store_after L n []) =
         (Inl (MexErr ''fast_assign_true:main'' ''Indices must be uint64.''),
          \<lparr>cell_arrays = [None], logicals = []\<rparr>)"
  using assms
  by (subst index_loop.simps)
    (simp add: destroy_loop.simps [of 0 0 0] store_after_def cell_array_at_def free_cells_null
      mexErrMsgIdAndTxt_def)

lemma index_loop_out_of_range:
  assumes "k < n" and "mxGetCell in_indices k = Some (UInt64Array ws)"
    and "\<exists>v\<in>set ws. unat sz \<le> unat v"
  shows "\<exists>v\<in>set ws. unat sz \<le> unat v \<and>
           fst (index_loop in_indices sz n k 0 (store_after (unat sz) n pre)) =
           Inl (OutOfBounds k v)"
proof -
  let ?s = "store_after (unat sz) n pre"
  have buf: "mxGetLogicals (snd (mxCreateLogicalMatrix (unat sz) 1 ?s))
               (fst (mxCreateLogicalMatrix (unat sz) 1 ?s)) = replicate (unat sz) False"
    by (simp add: mxCreateLogicalMatrix_def mxGetLogicals_def logical_at_def nth_append)
  from scatter_loop_out_of_range [of 0 ws "replicate (unat sz) False" k] assms(3)
  obtain v where "v \<in> set ws" "unat sz \<le> unat v"
    "scatter_loop k ws (length ws) 0 (replicate (unat sz) False) = Inl (OutOfBounds k v)"
    by auto
  then show ?thesis
    using assms(1,2) buf
    by (auto simp: index_loop.simps [of in_indices sz n k 0 ?s] Let_def)
qed

lemma free_cells_no_error: "free_cells cs s \<noteq> Inl (MexErr ident msg)"
  by (induction cs s rule: free_cells.induct) (simp_all split: option.splits)

lemma mxDestroyArray_no_error: "mxDestroyArray p s \<noteq> Inl (MexErr ident msg)"
  by (cases "(p, s)" rule: mxDestroyArray.cases)
    (simp_all add: free_cells_no_error split: option.splits)

lemma destroy_loop_no_error: "destroy_loop out j i s \<noteq> Inl (MexErr ident msg)"
proof (induction out j i s rule: destroy_loop.induct)
  case (1 out j i s)
  show ?case
  proof (cases "j < i")
    case False
    then show ?thesis by (simp add: destroy_loop.simps [of out j i s])
  next
    case True
    show ?thesis
    proof (cases "mxDestroyArray (mxGetCell_created s out j) s")
      case (Inl e)
      then have "e \<noteq> MexErr ident msg" using mxDestroyArray_no_error by metis
      with True Inl show ?thesis by (simp add: destroy_loop.simps [of out j i s])
    next
      case (Inr s')
      with True "1.IH" [OF True Inr] show ?thesis
        by (simp add: destroy_loop.simps [of out j i s])
    qed
  qed
qed

text \<open>The only error the loop over the index sets raises is the type error of line 56.\<close>

lemma index_loop_error:
  "fst (index_loop in_indices sz n i out s) = Inl (MexErr ident msg) \<Longrightarrow>
   ident = ''fast_assign_true:main'' \<and> msg = ''Indices must be uint64.''"
proof (induction in_indices sz n i out s rule: index_loop.induct)
  case (1 in_indices sz n_indices i out s)
  note unfold = index_loop.simps [of in_indices sz n_indices i out s]
  show ?case
  proof (cases "i < n_indices")
    case False
    with "1.prems" show ?thesis by (simp add: unfold)
  next
    case True
    note i = this
    show ?thesis
    proof (cases "mxGetCell in_indices i")
      case None
      with i "1.prems" show ?thesis by (simp add: unfold)
    next
      case (Some num_indices)
      show ?thesis
      proof (cases "mxGetClassID num_indices = mxUINT64_CLASS")
        case False
        with i Some "1.prems" destroy_loop_no_error mxDestroyArray_no_error show ?thesis
          by (auto simp: unfold mexErrMsgIdAndTxt_def simp del: mxDestroyArray.simps
              split: sum.splits)
      next
        case True
        note cls = this
        let ?created = "mxCreateLogicalMatrix (unat sz) 1 s"
        show ?thesis
        proof (cases "scatter_loop i (mxGetData num_indices)
                        (mxGetNumberOfElements num_indices) 0
                        (mxGetLogicals (snd ?created) (fst ?created))")
          case (Inl e)
          then have "e \<noteq> MexErr ident msg"
            using scatter_loop_no_error by metis
          with i Some cls Inl "1.prems" show ?thesis
            by (simp add: unfold Let_def)
        next
          case (Inr logical_inds_ptr)
          have "fst (index_loop in_indices sz n_indices (Suc i) out
                  (mxSetCell out i (fst ?created)
                     (write_logicals (fst ?created) logical_inds_ptr (snd ?created)))) =
                Inl (MexErr ident msg)"
            using i Some cls Inr "1.prems" by (simp add: unfold Let_def)
          with "1.IH" [OF i Some _ refl refl refl refl refl Inr] cls show ?thesis
            by simp
        qed
      qed
    qed
  qed
qed

section \<open>The entry point on well-formed calls\<close>

lemma mexFunction_loop:
  assumes "double_to_size_t d = Some sz"
  shows "mexFunction 1 [CellArray cells, DoubleArray [d]] =
         (case index_loop (CellArray cells) sz (length cells) 0 0
                 (store_after L (length cells) []) of
            (Inl e, s) \<Rightarrow> (Inl e, s)
          | (Inr out', s) \<Rightarrow> (returned_array s out', s))"
  using assms
  by (simp add: mexFunction_def mxCreateCellMatrix_def empty_store_def store_after_def Let_def)

lemma mexFunction_valid:
  assumes "double_to_size_t d = Some sz"
    and "\<forall>ws\<in>set batch. \<forall>v\<in>set ws. unat v < unat sz"
  shows "fst (mexFunction 1 [CellArray (map uint64_cell batch), DoubleArray [d]]) =
         Inr (CellArray (map (mask_cell (unat sz)) batch))"
  using index_loop_prefix [OF assms(2), of "length batch" "[]"]
  by (simp add: mexFunction_loop [OF assms(1), of _ "unat sz"] index_loop_done
      returned_array_store_after)

lemma mexFunction_out_of_range:
  assumes "double_to_size_t d = Some sz"
    and "\<forall>ws\<in>set pre. \<forall>v\<in>set ws. unat v < unat sz"
    and "\<exists>v\<in>set ws. unat sz \<le> unat v"
  shows "\<exists>v\<in>set ws. unat sz \<le> unat v \<and>
         fst (mexFunction 1 [CellArray (map uint64_cell pre @ uint64_cell ws # rest),
                             DoubleArray [d]]) = Inl (OutOfBounds (length pre) v)"
proof -
  let ?n = "length pre + Suc (length rest)"
  let ?cells = "map uint64_cell pre @ uint64_cell ws # rest"
  have pre: "index_loop (CellArray ?cells) sz ?n 0 0 (store_after (unat sz) ?n []) =
             index_loop (CellArray ?cells) sz ?n (length pre) 0 (store_after (unat sz) ?n pre)"
    using index_loop_prefix [OF assms(2), of ?n "uint64_cell ws # rest"] by simp
  have cell: "mxGetCell (CellArray ?cells) (length pre) = Some (UInt64Array ws)"
    by (simp add: nth_append)
  have k: "length pre < ?n" by simp
  from index_loop_out_of_range [OF k cell assms(3), of pre]
  obtain v where v: "v \<in> set ws" "unat sz \<le> unat v"
    and f: "fst (index_loop (CellArray ?cells) sz ?n (length pre) 0
                   (store_after (unat sz) ?n pre)) = Inl (OutOfBounds (length pre) v)"
    by blast
  have "fst (mexFunction 1 [CellArray ?cells, DoubleArray [d]]) =
        Inl (OutOfBounds (length pre) v)"
    using f pre mexFunction_loop [OF assms(1), of ?cells "unat sz"]
    by (simp split: prod.splits sum.splits)
  with v show ?thesis by blast
qed

lemma mexFunction_type_error_later:
  assumes "double_to_size_t d = Some sz"
    and "\<forall>ws\<in>set pre. \<forall>v\<in>set ws. unat v < unat sz"
    and "pre \<noteq> []" and "mxGetClassID a \<noteq> mxUINT64_CLASS"
  shows "fst (mexFunction 1 [CellArray (map uint64_cell pre @ Some a # rest), DoubleArray [d]]) =
         Inl (UseAfterDestroy (LogicalPtr 0))"
proof -
  let ?n = "length pre + Suc (length rest)"
  let ?cells = "map uint64_cell pre @ Some a # rest"
  have pre: "index_loop (CellArray ?cells) sz ?n 0 0 (store_after (unat sz) ?n []) =
             index_loop (CellArray ?cells) sz ?n (length pre) 0 (store_after (unat sz) ?n pre)"
    using index_loop_prefix [OF assms(2), of ?n "Some a # rest"] by simp
  have cell: "mxGetCell (CellArray ?cells) (length pre) = Some a"
    by (simp add: nth_append)
  have k: "length pre < ?n" by simp
  from index_loop_type_error_later [OF k assms(3) cell assms(4), of sz "unat sz"] pre
    mexFunction_loop [OF assms(1), of ?cells "unat sz"]
  show ?thesis by (simp split: prod.splits sum.splits)
qed

lemma mexFunction_type_error_first:
  assumes "double_to_size_t d = Some sz" and "mxGetClassID a \<noteq> mxUINT64_CLASS"
  shows "mexFunction 1 [CellArray (Some a # rest), DoubleArray [d]] =
         (Inl (MexErr ''fast_assign_true:main'' ''Indices must be uint64.''),
          \<lparr>cell_arrays = [None], logicals = []\<rparr>)"
  using index_loop_type_error_first [of "Suc (length rest)" "CellArray (Some a # rest)" a sz
      "unat sz"] assms(2)
  by (simp add: mexFunction_loop [OF assms(1), of _ "unat sz"])

lemma read_cells_no_error: "read_cells s cs \<noteq> Inl (MexErr ident msg)"
  by (induction s cs rule: read_cells.induct) (auto split: option.splits sum.splits)

text \<open>Past the checks of the arguments, the only error a call raises is the type error.\<close>

lemma mexFunction_error_after_checks:
  assumes "fst (mexFunction 1 [CellArray cells, DoubleArray [d]]) = Inl (MexErr ident msg)"
  shows "ident = ''fast_assign_true:main'' \<and> msg = ''Indices must be uint64.''"
proof (cases "double_to_size_t d")
  case None
  with assms show ?thesis by (simp add: mexFunction_def Let_def)
next
  case (Some sz)
  let ?run = "index_loop (CellArray cells) sz (length cells) 0 0
                (store_after 0 (length cells) [])"
  from assms mexFunction_loop [OF Some, of cells 0]
  have "fst ?run = Inl (MexErr ident msg)"
    using read_cells_no_error
    by (auto simp: returned_array_def split: prod.splits sum.splits option.splits)
  then show ?thesis by (rule index_loop_error)
qed

lemma unat_size_of_nat: "L < 2 ^ 64 \<Longrightarrow> unat (word_of_nat L :: 64 word) = L"
  by (simp add: of_nat_inverse)

lemma double_to_size_t_of_nat:
  "L < 2 ^ 64 \<Longrightarrow> double_to_size_t (Finite (of_nat L)) = Some (word_of_nat L)"
  by (simp add: truncate_def Let_def)

lemma double_to_size_t_floor:
  assumes "0 \<le> q" and "q < 2 ^ 64"
  shows "double_to_size_t (Finite q) = Some (word_of_int \<lfloor>q\<rfloor>)"
    and "unat (word_of_int \<lfloor>q\<rfloor> :: 64 word) = nat \<lfloor>q\<rfloor>"
proof -
  have lo: "0 \<le> \<lfloor>q\<rfloor>" using assms(1) by simp
  have hi: "\<lfloor>q\<rfloor> < 2 ^ 64" using assms(2) by (simp add: floor_less_iff)
  show "double_to_size_t (Finite q) = Some (word_of_int \<lfloor>q\<rfloor>)"
    using assms(1) lo hi by (simp add: truncate_def Let_def)
  show "unat (word_of_int \<lfloor>q\<rfloor> :: 64 word) = nat \<lfloor>q\<rfloor>"
    using lo hi by (simp add: unat_eq_nat_uint uint_word_of_int take_bit_int_eq_self)
qed

lemma convert_valid:
  assumes "L < 2 ^ 64" and "\<forall>ws\<in>set batch. \<forall>v\<in>set ws. unat v < L"
  shows "fst (mexFunction 1 [index_batch batch, length_scalar L]) =
         Inr (mask_batch (map (indicator_mask L) batch))"
  using mexFunction_valid [OF double_to_size_t_of_nat [OF assms(1)], of batch] assms
  by (simp add: index_batch_def mask_batch_def length_scalar_def unat_size_of_nat comp_def)

lemma indicator_mask_cong:
  "set ws = set ws' \<Longrightarrow> indicator_mask L ws = indicator_mask L ws'"
  by (simp add: indicator_mask_def)

lemma set_duplicate: "set (duplicate s) = set s"
  by (induction s) (auto simp: duplicate_def)

section \<open>The scenarios of the specification\<close>

text \<open>
  Scenarios 1, 2, 4 and 5 of the specification, run on the model. Scenario 3 expects a
  range error and is treated with the failures below.
\<close>

lemma scenario_1:
  "fst (mexFunction 1 [index_batch [[0, 2], [1]], length_scalar 3]) =
     Inr (mask_batch [[True, False, True], [False, True, False]])"
  by code_simp

lemma scenario_2:
  "fst (mexFunction 1 [index_batch [[]], length_scalar 5]) =
     Inr (mask_batch [[False, False, False, False, False]])"
  by code_simp

lemma scenario_4:
  "fst (mexFunction 1 [index_batch [], length_scalar 10]) = Inr (mask_batch [])"
  by code_simp

lemma scenario_5:
  "fst (mexFunction 1 [index_batch [[0, 0, 0]], length_scalar 1]) = Inr (mask_batch [[True]])"
  by code_simp

section \<open>Properties of the conversion\<close>

text \<open>
  C1 (correctness). For every batch whose index sets are \<^verbatim>\<open>uint64\<close> vectors with
  every value below the length \<open>L\<close>, the call returns a batch of masks in which mask \<open>i\<close>
  is true at position \<open>p < L\<close> exactly when \<open>p\<close> occurs in index set \<open>i\<close>, and false
  at every other position. The length is an integer \<open>L < 2 ^ 64\<close>, passed as the scalar
  double of that value, and the caller asks for one output.
\<close>

theorem mask_membership:
  assumes "L < 2 ^ 64" and "\<forall>ws\<in>set batch. \<forall>v\<in>set ws. unat v < L"
  shows "\<exists>masks. fst (mexFunction 1 [index_batch batch, length_scalar L]) = Inr (mask_batch masks)
           \<and> length masks = length batch
           \<and> (\<forall>i<length batch. length (masks ! i) = L
                \<and> (\<forall>p<L. masks ! i ! p \<longleftrightarrow> (\<exists>v\<in>set (batch ! i). unat v = p)))"
proof (intro exI conjI)
  show "fst (mexFunction 1 [index_batch batch, length_scalar L]) =
        Inr (mask_batch (map (indicator_mask L) batch))"
    by (rule convert_valid [OF assms])
  show "length (map (indicator_mask L) batch) = length batch" by simp
  show "\<forall>i<length batch. length (map (indicator_mask L) batch ! i) = L
          \<and> (\<forall>p<L. map (indicator_mask L) batch ! i ! p \<longleftrightarrow> (\<exists>v\<in>set (batch ! i). unat v = p))"
    by (auto simp: indicator_mask_def)
qed

theorem mask_membership_witness:
  "(3::nat) < 2 ^ 64 \<and> list_all (list_all (\<lambda>v. unat v < 3)) [[0, 2], [1 :: 64 word]] \<and>
   (\<exists>masks. fst (mexFunction 1 [index_batch [[0, 2], [1]], length_scalar 3]) = Inr (mask_batch masks)
      \<and> length masks = length [[0, 2], [1 :: 64 word]]
      \<and> (\<forall>i<length [[0, 2], [1 :: 64 word]]. length (masks ! i) = 3
           \<and> (\<forall>p<3. masks ! i ! p \<longleftrightarrow> (\<exists>v\<in>set ([[0, 2], [1 :: 64 word]] ! i). unat v = p))))"
proof -
  have h1: "(3::nat) < 2 ^ 64" by simp
  have h2: "\<forall>ws\<in>set [[0, 2], [1 :: 64 word]]. \<forall>v\<in>set ws. unat v < 3" by simp
  have h3: "list_all (list_all (\<lambda>v. unat v < 3)) [[0, 2], [1 :: 64 word]]" by simp
  from mask_membership [OF h1 h2] h1 h3 show ?thesis by blast
qed

text \<open>
  C3 (shape). For every valid input, the result holds exactly as many masks as the batch
  holds index sets, and every mask has the length \<open>L\<close> that was passed.
\<close>

theorem mask_shape:
  assumes "L < 2 ^ 64" and "\<forall>ws\<in>set batch. \<forall>v\<in>set ws. unat v < L"
  shows "\<exists>masks. fst (mexFunction 1 [index_batch batch, length_scalar L]) = Inr (mask_batch masks)
           \<and> length masks = length batch \<and> (\<forall>m\<in>set masks. length m = L)"
proof (intro exI conjI)
  show "fst (mexFunction 1 [index_batch batch, length_scalar L]) =
        Inr (mask_batch (map (indicator_mask L) batch))"
    by (rule convert_valid [OF assms])
  show "length (map (indicator_mask L) batch) = length batch" by simp
  show "\<forall>m\<in>set (map (indicator_mask L) batch). length m = L"
    by (simp add: indicator_mask_def)
qed

theorem mask_shape_witness:
  "(3::nat) < 2 ^ 64 \<and> list_all (list_all (\<lambda>v. unat v < 3)) [[0, 2], [1 :: 64 word]] \<and>
   (\<exists>masks. fst (mexFunction 1 [index_batch [[0, 2], [1]], length_scalar 3]) = Inr (mask_batch masks)
      \<and> length masks = length [[0, 2], [1 :: 64 word]] \<and> (\<forall>m\<in>set masks. length m = 3))"
proof -
  have h1: "(3::nat) < 2 ^ 64" by simp
  have h2: "\<forall>ws\<in>set [[0, 2], [1 :: 64 word]]. \<forall>v\<in>set ws. unat v < 3" by simp
  have h3: "list_all (list_all (\<lambda>v. unat v < 3)) [[0, 2], [1 :: 64 word]]" by simp
  from mask_shape [OF h1 h2] h1 h3 show ?thesis by blast
qed

text \<open>
  C7 (idempotence under duplicates). For every valid batch and length, converting the batch
  and converting the batch in which every element of every index set is written twice give
  the same masks.
\<close>

theorem duplicates_idempotent:
  assumes "L < 2 ^ 64" and "\<forall>s\<in>set batch. \<forall>v\<in>set s. unat v < L"
  shows "\<exists>masks. fst (mexFunction 1 [index_batch batch, length_scalar L]) = Inr (mask_batch masks)
           \<and> fst (mexFunction 1 [index_batch (map duplicate batch), length_scalar L]) =
               Inr (mask_batch masks)"
proof -
  have valid: "\<forall>s\<in>set (map duplicate batch). \<forall>v\<in>set s. unat v < L"
    using assms(2) by (simp add: set_duplicate)
  have eq: "map (indicator_mask L) (map duplicate batch) = map (indicator_mask L) batch"
    by (simp add: indicator_mask_cong [OF set_duplicate])
  have "fst (mexFunction 1 [index_batch (map duplicate batch), length_scalar L]) =
             Inr (mask_batch (map (indicator_mask L) batch))"
    using convert_valid [OF assms(1) valid] by (simp only: eq)
  with convert_valid [OF assms] show ?thesis by blast
qed

theorem duplicates_idempotent_witness:
  "duplicate [0, 2 :: 64 word] = [0, 0, 2, 2] \<and>
   (\<exists>masks. fst (mexFunction 1 [index_batch [[0, 2], [1]], length_scalar 3]) = Inr (mask_batch masks)
      \<and> fst (mexFunction 1 [index_batch (map duplicate [[0, 2], [1]]), length_scalar 3]) =
          Inr (mask_batch masks))"
proof -
  have h1: "(3::nat) < 2 ^ 64" by simp
  have h2: "\<forall>s\<in>set [[0, 2], [1 :: 64 word]]. \<forall>v\<in>set s. unat v < 3" by simp
  have h3: "duplicate [0, 2 :: 64 word] = [0, 0, 2, 2]" by (simp add: duplicate_def)
  from duplicates_idempotent [OF h1 h2] h3 show ?thesis by blast
qed

text \<open>
  C8 (order preservation). For every valid batch, converting the batch with its index sets
  permuted (\<open>pi\<close> lists the positions \<open>0, \<dots>, n - 1\<close> in the new order) gives the masks
  in the same new order, and converting a batch whose index sets hold the same elements in
  another order gives the same masks.
\<close>

theorem order_preservation:
  assumes "L < 2 ^ 64" and "\<forall>s\<in>set batch. \<forall>v\<in>set s. unat v < L"
  shows "\<exists>masks. fst (mexFunction 1 [index_batch batch, length_scalar L]) = Inr (mask_batch masks)
           \<and> (\<forall>pi. mset pi = mset [0..<length batch] \<longrightarrow>
                fst (mexFunction 1 [index_batch (map (\<lambda>i. batch ! i) pi), length_scalar L]) =
                  Inr (mask_batch (map (\<lambda>i. masks ! i) pi)))
           \<and> (\<forall>batch'. length batch' = length batch
                  \<and> (\<forall>i<length batch. mset (batch' ! i) = mset (batch ! i)) \<longrightarrow>
                fst (mexFunction 1 [index_batch batch', length_scalar L]) = Inr (mask_batch masks))"
proof (intro exI conjI allI impI)
  show "fst (mexFunction 1 [index_batch batch, length_scalar L]) =
        Inr (mask_batch (map (indicator_mask L) batch))"
    by (rule convert_valid [OF assms])
next
  fix pi :: "nat list"
  assume "mset pi = mset [0..<length batch]"
  then have "set pi = set [0..<length batch]" by (rule mset_eq_setD)
  then have pi: "\<forall>i\<in>set pi. i < length batch" by simp
  then have valid: "\<forall>s\<in>set (map (\<lambda>i. batch ! i) pi). \<forall>v\<in>set s. unat v < L"
    using assms(2) by (auto dest: nth_mem)
  have eq: "map (indicator_mask L) (map (\<lambda>i. batch ! i) pi) =
        map (\<lambda>i. map (indicator_mask L) batch ! i) pi"
    using pi by simp
  show "fst (mexFunction 1 [index_batch (map (\<lambda>i. batch ! i) pi), length_scalar L]) =
        Inr (mask_batch (map (\<lambda>i. map (indicator_mask L) batch ! i) pi))"
    using convert_valid [OF assms(1) valid] by (simp only: eq)
next
  fix batch' :: "64 word list list"
  assume h: "length batch' = length batch
               \<and> (\<forall>i<length batch. mset (batch' ! i) = mset (batch ! i))"
  then have sets: "\<forall>i<length batch. set (batch' ! i) = set (batch ! i)"
    by (auto dest: mset_eq_setD)
  have valid: "\<forall>s\<in>set batch'. \<forall>v\<in>set s. unat v < L"
    using assms(2) h sets by (metis in_set_conv_nth)
  have eq: "map (indicator_mask L) batch' = map (indicator_mask L) batch"
  proof (rule nth_equalityI)
    show "length (map (indicator_mask L) batch') = length (map (indicator_mask L) batch)"
      using h by simp
    fix i assume "i < length (map (indicator_mask L) batch')"
    then have i: "i < length batch" using h by simp
    then have "indicator_mask L (batch' ! i) = indicator_mask L (batch ! i)"
      using sets by (intro indicator_mask_cong) simp
    then show "map (indicator_mask L) batch' ! i = map (indicator_mask L) batch ! i"
      using i h by simp
  qed
  show "fst (mexFunction 1 [index_batch batch', length_scalar L]) =
        Inr (mask_batch (map (indicator_mask L) batch))"
    using convert_valid [OF assms(1) valid] by (simp only: eq)
qed

theorem order_preservation_witness:
  "\<exists>masks. fst (mexFunction 1 [index_batch [[0, 2], [1]], length_scalar 3]) = Inr (mask_batch masks)
      \<and> fst (mexFunction 1 [index_batch [[1], [0, 2]], length_scalar 3]) =
          Inr (mask_batch [masks ! 1, masks ! 0])
      \<and> fst (mexFunction 1 [index_batch [[2, 0], [1]], length_scalar 3]) = Inr (mask_batch masks)"
proof -
  let ?batch = "[[0, 2], [1 :: 64 word]]"
  have h1: "(3::nat) < 2 ^ 64" by simp
  have h2: "\<forall>s\<in>set ?batch. \<forall>v\<in>set s. unat v < 3" by simp
  from order_preservation [OF h1 h2]
  obtain masks where m: "fst (mexFunction 1 [index_batch ?batch, length_scalar 3]) =
        Inr (mask_batch masks)"
    and p: "\<forall>pi. mset pi = mset [0..<length ?batch] \<longrightarrow>
              fst (mexFunction 1 [index_batch (map (\<lambda>i. ?batch ! i) pi), length_scalar 3]) =
                Inr (mask_batch (map (\<lambda>i. masks ! i) pi))"
    and w: "\<forall>batch'. length batch' = length ?batch
                \<and> (\<forall>i<length ?batch. mset (batch' ! i) = mset (?batch ! i)) \<longrightarrow>
              fst (mexFunction 1 [index_batch batch', length_scalar 3]) = Inr (mask_batch masks)"
    by blast
  have "mset [1, 0 :: nat] = mset [0..<length ?batch]" by simp
  with p have "fst (mexFunction 1 [index_batch (map (\<lambda>i. ?batch ! i) [1, 0]), length_scalar 3]) =
                Inr (mask_batch (map (\<lambda>i. masks ! i) [1, 0]))" by blast
  then have swapped: "fst (mexFunction 1 [index_batch [[1], [0, 2]], length_scalar 3]) =
          Inr (mask_batch [masks ! 1, masks ! 0])" by simp
  have "length [[2, 0], [1 :: 64 word]] = length ?batch
          \<and> (\<forall>i<length ?batch. mset ([[2, 0], [1 :: 64 word]] ! i) = mset (?batch ! i))"
    by (simp add: less_Suc_eq)
  with w have "fst (mexFunction 1 [index_batch [[2, 0], [1]], length_scalar 3]) =
          Inr (mask_batch masks)" by blast
  with m swapped show ?thesis by blast
qed

text \<open>
  C9 (empty cases). With length 0 and a batch of empty index sets, every mask of the result
  is empty. With an empty batch and any length that converts to a \<^verbatim>\<open>size_t\<close>, the result
  is the empty batch; the length is still checked: a length array that does not hold
  exactly one element is rejected.
\<close>

theorem empty_cases:
  "((\<forall>s\<in>set batch. s = []) \<longrightarrow>
      fst (mexFunction 1 [index_batch batch, length_scalar 0]) =
        Inr (mask_batch (replicate (length batch) [])))
   \<and> (double_to_size_t d = Some sz \<longrightarrow>
        fst (mexFunction 1 [index_batch [], DoubleArray [d]]) = Inr (mask_batch []))
   \<and> (length ds \<noteq> 1 \<longrightarrow>
        fst (mexFunction 1 [index_batch [], DoubleArray ds]) =
          Inl (MexErr ''fast_assign_true:main'' ''Size must be scalar.''))"
proof (intro conjI impI)
  assume empty: "\<forall>s\<in>set batch. s = []"
  then have "\<forall>s\<in>set batch. \<forall>v\<in>set s. unat v < 0" by simp
  from convert_valid [OF _ this]
  have "fst (mexFunction 1 [index_batch batch, length_scalar 0]) =
        Inr (mask_batch (map (indicator_mask 0) batch))" by simp
  moreover have "map (indicator_mask 0) batch = replicate (length batch) []"
    by (induction batch) (simp_all add: indicator_mask_def)
  ultimately show "fst (mexFunction 1 [index_batch batch, length_scalar 0]) =
        Inr (mask_batch (replicate (length batch) []))" by simp
next
  assume "double_to_size_t d = Some sz"
  from mexFunction_valid [OF this, of "[]"]
  show "fst (mexFunction 1 [index_batch [], DoubleArray [d]]) = Inr (mask_batch [])"
    by (simp add: index_batch_def mask_batch_def)
next
  assume "length ds \<noteq> 1"
  then show "fst (mexFunction 1 [index_batch [], DoubleArray ds]) =
          Inl (MexErr ''fast_assign_true:main'' ''Size must be scalar.'')"
    by (simp add: mexFunction_def Let_def mexErrMsgIdAndTxt_def index_batch_def)
qed

theorem empty_cases_witness:
  "fst (mexFunction 1 [index_batch [[], []], length_scalar 0]) = Inr (mask_batch [[], []])
   \<and> fst (mexFunction 1 [index_batch [], DoubleArray [Finite 10]]) = Inr (mask_batch [])
   \<and> fst (mexFunction 1 [index_batch [], DoubleArray [Finite 1, Finite 2]]) =
        Inl (MexErr ''fast_assign_true:main'' ''Size must be scalar.'')"
  using empty_cases [of "[[], []]" "Finite 10" 10 "[Finite 1, Finite 2]"]
  by (simp add: truncate_def)

text \<open>
  C10 (fractional length). A scalar length \<open>q\<close> that is not an integer is accepted: with
  \<open>0 \<le> q < 2 ^ 64\<close> the call succeeds, no error is raised, and every mask has length
  \<open>\<lfloor>q\<rfloor>\<close>, which is below the value passed. The instance after the theorem is the double
  nearest to 2.7, \<open>3039929748475085 / 2 ^ 50\<close>, with masks of length 2.
\<close>

theorem fractional_length_truncated:
  assumes "0 \<le> q" and "q < 2 ^ 64" and "of_int \<lfloor>q\<rfloor> \<noteq> q"
    and "\<forall>s\<in>set batch. \<forall>v\<in>set s. unat v < nat \<lfloor>q\<rfloor>"
  shows "\<exists>masks. fst (mexFunction 1 [index_batch batch, DoubleArray [Finite q]]) =
                    Inr (mask_batch masks)
           \<and> length masks = length batch
           \<and> (\<forall>m\<in>set masks. length m = nat \<lfloor>q\<rfloor> \<and> of_nat (length m) < q)"
proof -
  let ?sz = "word_of_int \<lfloor>q\<rfloor> :: 64 word"
  note conv = double_to_size_t_floor [OF assms(1,2)]
  have valid: "\<forall>ws\<in>set batch. \<forall>v\<in>set ws. unat v < unat ?sz"
    using assms(4) conv(2) by simp
  have res: "fst (mexFunction 1 [index_batch batch, DoubleArray [Finite q]]) =
        Inr (mask_batch (map (indicator_mask (nat \<lfloor>q\<rfloor>)) batch))"
    using mexFunction_valid [OF conv(1) valid]
    by (simp add: index_batch_def mask_batch_def conv(2) comp_def)
  have lt: "of_int \<lfloor>q\<rfloor> < q"
    using assms(3) of_int_floor_le [of q] unfolding less_le by blast
  then have below: "of_nat (nat \<lfloor>q\<rfloor>) < q" using assms(1) by simp
  show ?thesis
  proof (intro exI conjI)
    show "fst (mexFunction 1 [index_batch batch, DoubleArray [Finite q]]) =
        Inr (mask_batch (map (indicator_mask (nat \<lfloor>q\<rfloor>)) batch))" by (rule res)
    show "length (map (indicator_mask (nat \<lfloor>q\<rfloor>)) batch) = length batch" by simp
    show "\<forall>m\<in>set (map (indicator_mask (nat \<lfloor>q\<rfloor>)) batch).
            length m = nat \<lfloor>q\<rfloor> \<and> of_nat (length m) < q"
      using below lt by (simp add: indicator_mask_def)
  qed
qed

theorem fractional_length_truncated_witness:
  "(0::rat) \<le> 3039929748475085 / 1125899906842624
   \<and> nat \<lfloor>3039929748475085 / 1125899906842624 :: rat\<rfloor> = 2
   \<and> (\<exists>masks. fst (mexFunction 1 [index_batch [[0, 1], [1]],
                  DoubleArray [Finite (3039929748475085 / 1125899906842624)]]) =
                    Inr (mask_batch masks)
           \<and> length masks = length [[0, 1], [1 :: 64 word]]
           \<and> (\<forall>m\<in>set masks. length m = 2
                 \<and> of_nat (length m) < (3039929748475085 / 1125899906842624 :: rat)))"
proof -
  let ?q = "3039929748475085 / 1125899906842624 :: rat"
  have fl: "\<lfloor>?q\<rfloor> = 2" by (simp add: floor_eq_iff)
  have h1: "0 \<le> ?q" by simp
  have h2: "?q < 2 ^ 64" by simp
  have h3: "of_int \<lfloor>?q\<rfloor> \<noteq> ?q" by (simp add: fl)
  have h4: "\<forall>s\<in>set [[0, 1], [1 :: 64 word]]. \<forall>v\<in>set s. unat v < nat \<lfloor>?q\<rfloor>"
    by (simp add: fl)
  from fractional_length_truncated [OF h1 h2 h3 h4] h1 show ?thesis
    by (simp add: fl)
qed

section \<open>Failures\<close>

text \<open>
  C2 (range enforcement), as the code has it. The call has no range check and no range
  error. For every batch of \<^verbatim>\<open>uint64\<close> index sets that holds a value \<open>v \<ge> L\<close>, the call
  raises no error: at the first index set \<open>k\<close> that holds such a value, line 67 writes
  through an index outside the buffer of mask \<open>k\<close>, which C leaves undefined.
\<close>

theorem out_of_range_unchecked:
  assumes "L < 2 ^ 64" and "\<exists>s\<in>set batch. \<exists>v\<in>set s. L \<le> unat v"
  shows "\<exists>k v. k < length batch \<and> v \<in> set (batch ! k) \<and> L \<le> unat v
           \<and> (\<forall>j<k. \<forall>w\<in>set (batch ! j). unat w < L)
           \<and> fst (mexFunction 1 [index_batch batch, length_scalar L]) = Inl (OutOfBounds k v)"
proof -
  from split_list_first_prop [OF assms(2)]
  obtain pre s rest where batch: "batch = pre @ s # rest"
    and s: "\<exists>v\<in>set s. L \<le> unat v"
    and pre: "\<forall>t\<in>set pre. \<not> (\<exists>v\<in>set t. L \<le> unat v)"
    by blast
  let ?sz = "word_of_nat L :: 64 word"
  have sz: "unat ?sz = L" by (rule unat_size_of_nat [OF assms(1)])
  have valid: "\<forall>ws\<in>set pre. \<forall>v\<in>set ws. unat v < unat ?sz"
    using pre sz by (auto simp: not_le)
  have bad: "\<exists>v\<in>set s. unat ?sz \<le> unat v"
    using s sz by simp
  from mexFunction_out_of_range [OF double_to_size_t_of_nat [OF assms(1)] valid bad,
      of "map uint64_cell rest"]
  obtain v where v: "v \<in> set s" "L \<le> unat v"
    and res: "fst (mexFunction 1 [index_batch batch, length_scalar L]) =
              Inl (OutOfBounds (length pre) v)"
    by (auto simp: index_batch_def length_scalar_def batch sz)
  have "\<forall>j<length pre. \<forall>w\<in>set (batch ! j). unat w < L"
    using pre by (auto simp: batch nth_append not_le)
  with v res show ?thesis
    by (intro exI [of _ "length pre"] exI [of _ v]) (simp add: batch)
qed

theorem out_of_range_unchecked_witness:
  "\<exists>k v. k < length [[4 :: 64 word]] \<and> v \<in> set ([[4]] ! k) \<and> 3 \<le> unat v
      \<and> (\<forall>j<k. \<forall>w\<in>set ([[4 :: 64 word]] ! j). unat w < 3)
      \<and> fst (mexFunction 1 [index_batch [[4]], length_scalar 3]) = Inl (OutOfBounds k v)"
proof -
  have h1: "(3::nat) < 2 ^ 64" by simp
  have h2: "\<exists>s\<in>set [[4 :: 64 word]]. \<exists>v\<in>set s. 3 \<le> unat v" by simp
  from out_of_range_unchecked [OF h1 h2] show ?thesis .
qed

text \<open>
  C2 as stated fails on scenario 3 of the specification, batch \<open>[[4]]\<close> with length 3: the
  call does not end in an error raised by \<^verbatim>\<open>mexErrMsgIdAndTxt\<close> but in the write to
  position 4 of a buffer of 3 elements.
\<close>

theorem range_error_counterexample:
  "fst (mexFunction 1 [index_batch [[4]], length_scalar 3]) = Inl (OutOfBounds 0 4)"
  by code_simp

text \<open>
  The type error at the first index set of a batch: no mask exists yet, the output cell
  array is freed and the error of line 56 is raised.
\<close>

lemma type_error_at_first_set:
  assumes "L < 2 ^ 64" and "mxGetClassID a \<noteq> mxUINT64_CLASS"
  shows "mexFunction 1 [CellArray (Some a # rest), length_scalar L] =
         (Inl (MexErr ''fast_assign_true:main'' ''Indices must be uint64.''),
          \<lparr>cell_arrays = [None], logicals = []\<rparr>)"
  using mexFunction_type_error_first [OF double_to_size_t_of_nat [OF assms(1)] assms(2)]
  by (simp add: length_scalar_def)

text \<open>
  C4 (type error). The source means to do what the claim says: on an index set of another
  class it destroys the masks built so far, destroys the output cell array and raises
  \<^verbatim>\<open>Indices must be uint64.\<close> It does so only when that index set is the first. When it
  is at a position \<open>k \<ge> 1\<close> and the index sets before it are valid, lines 50 to 53 destroy
  each mask through the pointer that \<^verbatim>\<open>mxGetCell\<close> returns, and line 55 destroys \<open>out\<close>,
  whose cells still hold those pointers: the first mask is destroyed a second time, and
  the call does not reach the error of line 56.
\<close>

theorem type_error_destroys_twice:
  assumes "L < 2 ^ 64" and "pre \<noteq> []" and "\<forall>s\<in>set pre. \<forall>v\<in>set s. unat v < L"
    and "mxGetClassID a \<noteq> mxUINT64_CLASS"
  shows "fst (mexFunction 1 [CellArray (map (\<lambda>s. Some (UInt64Array s)) pre @ Some a # rest),
                             length_scalar L]) =
         Inl (UseAfterDestroy (LogicalPtr 0))"
proof -
  let ?sz = "word_of_nat L :: 64 word"
  have sz: "unat ?sz = L" by (rule unat_size_of_nat [OF assms(1)])
  have valid: "\<forall>ws\<in>set pre. \<forall>v\<in>set ws. unat v < unat ?sz"
    using assms(3) sz by simp
  from mexFunction_type_error_later [OF double_to_size_t_of_nat [OF assms(1)] valid
      assms(2) assms(4), of rest]
  show ?thesis by (simp add: length_scalar_def)
qed

theorem type_error_destroys_twice_witness:
  "fst (mexFunction 1 [CellArray [Some (UInt64Array [0]), Some (DoubleArray [Finite 1])],
                       length_scalar 3]) =
   Inl (UseAfterDestroy (LogicalPtr 0))"
proof -
  have h1: "(3::nat) < 2 ^ 64" by simp
  have h2: "[[0 :: 64 word]] \<noteq> []" by simp
  have h3: "\<forall>s\<in>set [[0 :: 64 word]]. \<forall>v\<in>set s. unat v < 3" by simp
  have h4: "mxGetClassID (DoubleArray [Finite 1]) \<noteq> mxUINT64_CLASS" by simp
  from type_error_destroys_twice [OF h1 h2 h3 h4, of "[]"] show ?thesis by simp
qed

text \<open>
  C5 (length validation), as the code has it. A length that is not a single scalar is
  rejected before any array is created, and the call returns nothing: with the message
  \<^verbatim>\<open>Size must be double.\<close> when its class is not double (the check of line 27, which also
  rejects a scalar of another class), and with \<^verbatim>\<open>Size must be scalar.\<close> otherwise. The
  sign of the length is not checked: with a scalar double, whatever its sign, the only
  error the call can raise is the type error of the index sets.
\<close>

theorem length_validation:
  "(mxGetNumberOfElements in_size \<noteq> 1 \<longrightarrow>
      mexFunction 1 [CellArray cells, in_size] =
        (Inl (MexErr ''fast_assign_true:main''
               (if mxGetClassID in_size = mxDOUBLE_CLASS then ''Size must be scalar.''
                else ''Size must be double.'')), empty_store))
   \<and> (mxGetClassID in_size \<noteq> mxDOUBLE_CLASS \<longrightarrow>
        mexFunction 1 [CellArray cells, in_size] =
          (Inl (MexErr ''fast_assign_true:main'' ''Size must be double.''), empty_store))
   \<and> (fst (mexFunction 1 [CellArray cells, DoubleArray [d]]) = Inl (MexErr ident msg) \<longrightarrow>
        msg = ''Indices must be uint64.'')"
proof (intro conjI impI)
  assume "mxGetNumberOfElements in_size \<noteq> 1"
  then show "mexFunction 1 [CellArray cells, in_size] =
        (Inl (MexErr ''fast_assign_true:main''
               (if mxGetClassID in_size = mxDOUBLE_CLASS then ''Size must be scalar.''
                else ''Size must be double.'')), empty_store)"
    by (simp add: mexFunction_def Let_def mexErrMsgIdAndTxt_def)
next
  assume "mxGetClassID in_size \<noteq> mxDOUBLE_CLASS"
  then show "mexFunction 1 [CellArray cells, in_size] =
          (Inl (MexErr ''fast_assign_true:main'' ''Size must be double.''), empty_store)"
    by (simp add: mexFunction_def Let_def mexErrMsgIdAndTxt_def)
next
  assume "fst (mexFunction 1 [CellArray cells, DoubleArray [d]]) = Inl (MexErr ident msg)"
  then show "msg = ''Indices must be uint64.''"
    by (simp add: mexFunction_error_after_checks)
qed

theorem length_validation_witness:
  "mexFunction 1 [CellArray [], DoubleArray [Finite 1, Finite 2]] =
     (Inl (MexErr ''fast_assign_true:main'' ''Size must be scalar.''), empty_store)
   \<and> mexFunction 1 [CellArray [], UInt64Array [3]] =
       (Inl (MexErr ''fast_assign_true:main'' ''Size must be double.''), empty_store)
   \<and> fst (mexFunction 1 [CellArray [Some (DoubleArray [Finite 1])],
                         DoubleArray [Finite (- 1 / 2)]]) =
       Inl (MexErr ''fast_assign_true:main'' ''Indices must be uint64.'')"
proof -
  have h: "fst (mexFunction 1 [CellArray [Some (DoubleArray [Finite 1])],
                               DoubleArray [Finite (- 1 / 2)]]) =
           Inl (MexErr ''fast_assign_true:main'' ''Indices must be uint64.'')"
    by code_simp
  from length_validation [of "DoubleArray [Finite 1, Finite 2]" "[]"]
    length_validation [of "UInt64Array [3]" "[]"]
    length_validation [of _ "[Some (DoubleArray [Finite 1])]" "Finite (- 1 / 2)"
      "''fast_assign_true:main''" "''Indices must be uint64.''"] h
  show ?thesis by simp
qed

text \<open>
  C5 as stated fails for a negative length: \<open>- 1 / 2\<close> is a scalar double, the conversion
  of line 40 truncates it to 0, and the call returns one empty mask.
\<close>

theorem negative_length_counterexample:
  "fst (mexFunction 1 [index_batch [[]], DoubleArray [Finite (- 1 / 2)]]) = Inr (mask_batch [[]])"
  by code_simp

text \<open>
  C6 (error content), as the code has it. Every error the call raises carries the
  identifier \<^verbatim>\<open>fast_assign_true:main\<close> and the constant message of the check that failed:
  the number of inputs, the number of outputs, the class of the batch, the class of the
  length, the element count of the length, the class of an index set. The six messages
  differ, so the message identifies the failure kind. The message of the type error is
  the same for every array in the cell and every rest of the batch: it names neither an
  index set nor a value.
\<close>

theorem error_identifies_check:
  "(length prhs \<noteq> 2 \<longrightarrow>
      fst (mexFunction nlhs prhs) =
        Inl (MexErr ''fast_assign_true:main'' ''Wrong number of inputs.''))
   \<and> (nlhs \<noteq> 1 \<longrightarrow>
        fst (mexFunction nlhs [in_indices, in_size]) =
          Inl (MexErr ''fast_assign_true:main'' ''Wrong number of outputs.''))
   \<and> (mxGetClassID in_indices \<noteq> mxCELL_CLASS \<longrightarrow>
        fst (mexFunction 1 [in_indices, in_size]) =
          Inl (MexErr ''fast_assign_true:main'' ''Indices must be cell array.''))
   \<and> (mxGetClassID in_size \<noteq> mxDOUBLE_CLASS \<longrightarrow>
        fst (mexFunction 1 [CellArray cells, in_size]) =
          Inl (MexErr ''fast_assign_true:main'' ''Size must be double.''))
   \<and> (length ds \<noteq> 1 \<longrightarrow>
        fst (mexFunction 1 [CellArray cells, DoubleArray ds]) =
          Inl (MexErr ''fast_assign_true:main'' ''Size must be scalar.''))
   \<and> (double_to_size_t d = Some sz \<and> mxGetClassID a \<noteq> mxUINT64_CLASS \<longrightarrow>
        fst (mexFunction 1 [CellArray (Some a # rest), DoubleArray [d]]) =
          Inl (MexErr ''fast_assign_true:main'' ''Indices must be uint64.''))
   \<and> (fst (mexFunction 1 [CellArray cells, DoubleArray [d]]) = Inl (MexErr ident msg) \<longrightarrow>
        ident = ''fast_assign_true:main'' \<and> msg = ''Indices must be uint64.'')
   \<and> distinct [''Wrong number of inputs.'', ''Wrong number of outputs.'',
                ''Indices must be cell array.'', ''Size must be double.'',
                ''Size must be scalar.'', ''Indices must be uint64.'']"
proof -
  have c1: "length prhs \<noteq> 2 \<longrightarrow>
      fst (mexFunction nlhs prhs) =
        Inl (MexErr ''fast_assign_true:main'' ''Wrong number of inputs.'')"
    by (simp add: mexFunction_def Let_def mexErrMsgIdAndTxt_def)
  have c2: "nlhs \<noteq> 1 \<longrightarrow>
        fst (mexFunction nlhs [in_indices, in_size]) =
          Inl (MexErr ''fast_assign_true:main'' ''Wrong number of outputs.'')"
    by (simp add: mexFunction_def Let_def mexErrMsgIdAndTxt_def)
  have c3: "mxGetClassID in_indices \<noteq> mxCELL_CLASS \<longrightarrow>
        fst (mexFunction 1 [in_indices, in_size]) =
          Inl (MexErr ''fast_assign_true:main'' ''Indices must be cell array.'')"
    by (simp add: mexFunction_def Let_def mexErrMsgIdAndTxt_def)
  have c4: "mxGetClassID in_size \<noteq> mxDOUBLE_CLASS \<longrightarrow>
        fst (mexFunction 1 [CellArray cells, in_size]) =
          Inl (MexErr ''fast_assign_true:main'' ''Size must be double.'')"
    by (simp add: mexFunction_def Let_def mexErrMsgIdAndTxt_def)
  have c5: "length ds \<noteq> 1 \<longrightarrow>
        fst (mexFunction 1 [CellArray cells, DoubleArray ds]) =
          Inl (MexErr ''fast_assign_true:main'' ''Size must be scalar.'')"
    by (simp add: mexFunction_def Let_def mexErrMsgIdAndTxt_def)
  have c6: "double_to_size_t d = Some sz \<and> mxGetClassID a \<noteq> mxUINT64_CLASS \<longrightarrow>
        fst (mexFunction 1 [CellArray (Some a # rest), DoubleArray [d]]) =
          Inl (MexErr ''fast_assign_true:main'' ''Indices must be uint64.'')"
    by (simp add: mexFunction_type_error_first)
  have c7: "fst (mexFunction 1 [CellArray cells, DoubleArray [d]]) = Inl (MexErr ident msg) \<longrightarrow>
        ident = ''fast_assign_true:main'' \<and> msg = ''Indices must be uint64.''"
    using mexFunction_error_after_checks by blast
  have c8: "distinct [''Wrong number of inputs.'', ''Wrong number of outputs.'',
                ''Indices must be cell array.'', ''Size must be double.'',
                ''Size must be scalar.'', ''Indices must be uint64.'']"
    by simp
  from c1 c2 c3 c4 c5 c6 c7 c8 show ?thesis by (intro conjI)
qed

theorem error_identifies_check_witness:
  "fst (mexFunction 0 [index_batch [[0]]]) =
     Inl (MexErr ''fast_assign_true:main'' ''Wrong number of inputs.'')
   \<and> fst (mexFunction 0 [UInt64Array [0], UInt64Array [3]]) =
       Inl (MexErr ''fast_assign_true:main'' ''Wrong number of outputs.'')
   \<and> fst (mexFunction 1 [UInt64Array [0], UInt64Array [3]]) =
       Inl (MexErr ''fast_assign_true:main'' ''Indices must be cell array.'')
   \<and> fst (mexFunction 1 [CellArray [Some (DoubleArray [Finite 1]), Some (UInt64Array [0])],
                         UInt64Array [3]]) =
       Inl (MexErr ''fast_assign_true:main'' ''Size must be double.'')
   \<and> fst (mexFunction 1 [CellArray [Some (DoubleArray [Finite 1]), Some (UInt64Array [0])],
                         DoubleArray [Finite 3, Finite 3]]) =
       Inl (MexErr ''fast_assign_true:main'' ''Size must be scalar.'')
   \<and> fst (mexFunction 1 [CellArray [Some (DoubleArray [Finite 1]), Some (UInt64Array [0])],
                         DoubleArray [Finite 3]]) =
       Inl (MexErr ''fast_assign_true:main'' ''Indices must be uint64.'')"
proof -
  note inst = error_identifies_check [where prhs = "[index_batch [[0]]]" and nlhs = 0
      and in_indices = "UInt64Array [0]" and in_size = "UInt64Array [3]"
      and cells = "[Some (DoubleArray [Finite 1]), Some (UInt64Array [0])]"
      and ds = "[Finite 3, Finite 3]" and d = "Finite 3" and sz = 3
      and a = "DoubleArray [Finite 1]" and rest = "[Some (UInt64Array [0])]"
      and ident = "''fast_assign_true:main''" and msg = "''Indices must be uint64.''"]
  have h1: "length [index_batch [[0]]] \<noteq> 2" by simp
  have h2: "(0::int) \<noteq> 1" by simp
  have h3: "mxGetClassID (UInt64Array [0]) \<noteq> mxCELL_CLASS" by simp
  have h4: "mxGetClassID (UInt64Array [3]) \<noteq> mxDOUBLE_CLASS" by simp
  have h5: "length [Finite 3, Finite 3] \<noteq> 1" by simp
  have h6: "double_to_size_t (Finite 3) = Some 3 \<and>
            mxGetClassID (DoubleArray [Finite 1]) \<noteq> mxUINT64_CLASS"
    by (simp add: truncate_def)
  from inst h1 h2 h3 h4 h5 h6 show ?thesis by blast
qed

text \<open>
  C6 as stated fails for the type error: two calls whose first index set is a double
  array, one holding the value 1 and one holding the value 2, raise the same error, so
  the error does not tell which value triggered the failure.
\<close>

theorem error_value_counterexample:
  "fst (mexFunction 1 [CellArray [Some (DoubleArray [Finite 1])], length_scalar 3]) =
     Inl (MexErr ''fast_assign_true:main'' ''Indices must be uint64.'')
   \<and> fst (mexFunction 1 [CellArray [Some (DoubleArray [Finite 2])], length_scalar 3]) =
     Inl (MexErr ''fast_assign_true:main'' ''Indices must be uint64.'')"
  by code_simp

end
